theory Spec2Isabelle
  imports Main
begin

section \<open>JavaScript values and helpers\<close>

text \<open>
  Strings are lists of characters. A JavaScript value that ends up in an object
  (manifest extras, template context, the manifest itself) is a \<open>jsval\<close>. An object is an
  association list of its own properties: setting a property that exists replaces its
  value in place, setting a new one appends it, which is what defining a property and
  \<open>Map.prototype.set\<close> do. Lookups are \<open>map_of\<close>. (JavaScript enumerates integer-like
  property names before the others; nothing here depends on the order of the properties.)
\<close>

datatype jsval =
    JUndefined
  | JNull
  | JBool bool
  | JNum int
  | JStr string
  | JArr "jsval list"
  | JObj "(string \<times> jsval) list"

fun assoc_set :: "'k \<Rightarrow> 'v \<Rightarrow> ('k \<times> 'v) list \<Rightarrow> ('k \<times> 'v) list" where
  "assoc_set k v [] = [(k, v)]"
| "assoc_set k v (p # ps) = (if fst p = k then (k, v) # ps else p # assoc_set k v ps)"

text \<open>
  The assignment \<open>obj[k] = v\<close> on a plain object. The name \<open>__proto__\<close> is an accessor
  inherited from \<open>Object.prototype\<close>: assigning to it creates no own property (the setter
  ignores a string and takes an object as the new prototype), so the own properties stay as
  they are. Every other name is defined or updated. Object literals, computed keys and
  spreads define their properties directly and are not affected.
\<close>

definition prop_assign :: "string \<Rightarrow> 'v \<Rightarrow> (string \<times> 'v) list \<Rightarrow> (string \<times> 'v) list" where
  "prop_assign k v obj = (if k = ''__proto__'' then obj else assoc_set k v obj)"

definition assoc_delete :: "'k \<Rightarrow> ('k \<times> 'v) list \<Rightarrow> ('k \<times> 'v) list" where
  "assoc_delete k ps = filter (\<lambda>p. fst p \<noteq> k) ps"

definition assoc_has :: "('k \<times> 'v) list \<Rightarrow> 'k \<Rightarrow> bool" where
  "assoc_has ps k = (map_of ps k \<noteq> None)"

text \<open>Object spread \<open>{...a, ...b}\<close>: the properties of \<open>b\<close> are set on a copy of \<open>a\<close> in order.\<close>

definition spread :: "('k \<times> 'v) list \<Rightarrow> ('k \<times> 'v) list \<Rightarrow> ('k \<times> 'v) list" where
  "spread a b = foldl (\<lambda>acc p. assoc_set (fst p) (snd p) acc) a b"

text \<open>Truthiness of an optional string: \<open>undefined\<close> and the empty string are falsy.\<close>

fun truthy :: "string option \<Rightarrow> bool" where
  "truthy None = False"
| "truthy (Some s) = (s \<noteq> [])"

fun opt_js :: "string option \<Rightarrow> jsval" where
  "opt_js None = JUndefined"
| "opt_js (Some s) = JStr s"

text \<open>Truthiness of a value.\<close>

fun js_truthy :: "jsval \<Rightarrow> bool" where
  "js_truthy JUndefined = False"
| "js_truthy JNull = False"
| "js_truthy (JBool b) = b"
| "js_truthy (JNum n) = (n \<noteq> 0)"
| "js_truthy (JStr s) = (s \<noteq> [])"
| "js_truthy (JArr xs) = True"
| "js_truthy (JObj ps) = True"

text \<open>The decimal name of an array index.\<close>

fun index_name :: "nat \<Rightarrow> string" where
  "index_name n =
     (if n < 10 then [''0123456789'' ! n]
      else index_name (n div 10) @ [''0123456789'' ! (n mod 10)])"

text \<open>
  The own enumerable properties that a spread \<open>{...v}\<close> copies: those of an object, the
  indexed elements of an array, the indexed characters of a string, and none of any other
  value.
\<close>

fun spread_source :: "jsval \<Rightarrow> (string \<times> jsval) list" where
  "spread_source (JObj ps) = ps"
| "spread_source (JArr xs) = zip (map index_name [0..<length xs]) xs"
| "spread_source (JStr s) = zip (map index_name [0..<length s]) (map (\<lambda>c. JStr [c]) s)"
| "spread_source v = []"

text \<open>
  \<open>String.prototype.trim\<close> on characters below 256: tab, line feed, vertical tab, form
  feed, carriage return, space and the no-break space are white space.
\<close>

definition is_space :: "char \<Rightarrow> bool" where
  "is_space c = (c \<in> set [CHR 0x09, CHR 0x0A, CHR 0x0B, CHR 0x0C, CHR 0x0D, CHR 0x20, CHR 0xA0])"

definition trim :: "string \<Rightarrow> string" where
  "trim s = rev (dropWhile is_space (rev (dropWhile is_space s)))"

text \<open>\<open>Array.prototype.join\<close> on strings.\<close>

fun join :: "string \<Rightarrow> string list \<Rightarrow> string" where
  "join sep [] = []"
| "join sep [x] = x"
| "join sep (x # y # ys) = x @ sep @ join sep (y # ys)"

section \<open>Types (src/types/index.ts)\<close>

text \<open>
  A framework tag is a string at run time; its declared type is a union of thirteen
  literals, but the registry and the orchestrator only compare and print it.
\<close>

type_synonym Framework = string

datatype PackageType = Library | Plugin | Utility | Cli | Sdk | Integration | Adapter

datatype RuntimeTarget = Browser | NodeTarget | Edge | Universal

datatype ModuleFormat = Esm | Cjs | Dual

datatype PackageManager = Npm | Pnpm | Yarn | BunPm

datatype BuildSystem = Tsup | Vite | Rollup | Unbuild | Esbuild

datatype DependencyType = Dependency | DevDependency | PeerDependency | OptionalDependency

datatype ValidationSeverity = Error | Warning | Info

fun PackageType_str :: "PackageType \<Rightarrow> string" where
  "PackageType_str Library = ''library''"
| "PackageType_str Plugin = ''plugin''"
| "PackageType_str Utility = ''utility''"
| "PackageType_str Cli = ''cli''"
| "PackageType_str Sdk = ''sdk''"
| "PackageType_str Integration = ''integration''"
| "PackageType_str Adapter = ''adapter''"

fun RuntimeTarget_str :: "RuntimeTarget \<Rightarrow> string" where
  "RuntimeTarget_str Browser = ''browser''"
| "RuntimeTarget_str NodeTarget = ''node''"
| "RuntimeTarget_str Edge = ''edge''"
| "RuntimeTarget_str Universal = ''universal''"

fun ModuleFormat_str :: "ModuleFormat \<Rightarrow> string" where
  "ModuleFormat_str Esm = ''esm''"
| "ModuleFormat_str Cjs = ''cjs''"
| "ModuleFormat_str Dual = ''dual''"

fun PackageManager_str :: "PackageManager \<Rightarrow> string" where
  "PackageManager_str Npm = ''npm''"
| "PackageManager_str Pnpm = ''pnpm''"
| "PackageManager_str Yarn = ''yarn''"
| "PackageManager_str BunPm = ''bun''"

fun BuildSystem_str :: "BuildSystem \<Rightarrow> string" where
  "BuildSystem_str Tsup = ''tsup''"
| "BuildSystem_str Vite = ''vite''"
| "BuildSystem_str Rollup = ''rollup''"
| "BuildSystem_str Unbuild = ''unbuild''"
| "BuildSystem_str Esbuild = ''esbuild''"

record GeneratorMeta =
  meta_id :: string
  meta_name :: string
  meta_framework :: Framework
  meta_description :: string
  meta_version :: string
  supportedPackageTypes :: "PackageType list"
  supportedRuntimeTargets :: "RuntimeTarget list"
  recommendedBuildSystem :: BuildSystem

text \<open>
  The configuration. \<open>otherOptions\<close> holds the remaining optional properties of the object
  (frameworkOptions, ciProvider, includeHusky and the other preset flags), which the
  generators and the orchestrator never read but which are spread into the template context.
\<close>

record GeneratorConfig =
  name :: string
  description :: string
  packageType :: PackageType
  runtimeTarget :: RuntimeTarget
  moduleFormat :: ModuleFormat
  buildSystem :: BuildSystem
  packageManager :: PackageManager
  license :: string
  author :: string
  repository :: "string option"
  outDir :: string
  includeExample :: "bool option"
  otherOptions :: "(string \<times> jsval) list"

text \<open>
  Optional fields that nothing here sets or reads are left out: the \<open>condition\<close> of a
  dependency specification, and the \<open>file\<close> and \<open>jsonPath\<close> of a validation issue.
\<close>

record DependencySpec =
  dep_name :: string
  dep_version :: string
  dep_type :: DependencyType

record ExportConfig =
  exp_path :: string
  exp_types :: "string option"
  exp_import :: "string option"
  exp_require :: "string option"
  exp_default :: "string option"

record GeneratedFile =
  file_path :: string
  file_template :: string
  isTemplate :: bool
  condition :: "(GeneratorConfig \<Rightarrow> bool) option"

record ValidationIssue =
  severity :: ValidationSeverity
  category :: string
  message :: string
  suggestion :: "string option"

record ValidationResult =
  valid :: bool
  issues :: "ValidationIssue list"

record GeneratorResult =
  success :: bool
  files :: "string list"
  warnings :: "string list"
  error :: "string option"
  nextSteps :: "string list"

text \<open>
  The Generator interface: the methods the registry and the orchestrator call. The
  post-generation hook is optional; when present it either throws (\<open>Inl\<close> the message) or
  completes, handing back the result object it was given.
\<close>

record Generator =
  meta :: GeneratorMeta
  getDependencies :: "GeneratorConfig \<Rightarrow> DependencySpec list"
  getExports :: "GeneratorConfig \<Rightarrow> ExportConfig list"
  getFiles :: "GeneratorConfig \<Rightarrow> GeneratedFile list"
  getPackageJsonExtras :: "GeneratorConfig \<Rightarrow> (string \<times> jsval) list"
  validate :: "GeneratorConfig \<Rightarrow> ValidationResult"
  postGenerate :: "(GeneratorConfig \<Rightarrow> GeneratorResult \<Rightarrow> string + GeneratorResult) option"

section \<open>Base generator (core/base-generator.ts)\<close>

definition dep :: "string \<Rightarrow> string \<Rightarrow> DependencySpec" where
  "dep n v = \<lparr>dep_name = n, dep_version = v, dep_type = Dependency\<rparr>"

definition peerDep :: "string \<Rightarrow> string \<Rightarrow> DependencySpec" where
  "peerDep n v = \<lparr>dep_name = n, dep_version = v, dep_type = PeerDependency\<rparr>"

definition devDep :: "string \<Rightarrow> string \<Rightarrow> DependencySpec" where
  "devDep n v = \<lparr>dep_name = n, dep_version = v, dep_type = DevDependency\<rparr>"

definition optionalDep :: "string \<Rightarrow> string \<Rightarrow> DependencySpec" where
  "optionalDep n v = \<lparr>dep_name = n, dep_version = v, dep_type = OptionalDependency\<rparr>"

fun buildSystemDependencies :: "BuildSystem \<Rightarrow> DependencySpec list" where
  "buildSystemDependencies Tsup = [devDep ''tsup'' ''^8.3.0'']"
| "buildSystemDependencies Vite =
     [devDep ''vite'' ''^6.0.0'', devDep ''vite-plugin-dts'' ''^4.3.0'']"
| "buildSystemDependencies Rollup =
     [devDep ''rollup'' ''^4.28.0'', devDep ''@rollup/plugin-typescript'' ''^12.1.0'',
      devDep ''@rollup/plugin-node-resolve'' ''^16.0.0'']"
| "buildSystemDependencies Unbuild = [devDep ''unbuild'' ''^3.0.0'']"
| "buildSystemDependencies Esbuild = [devDep ''esbuild'' ''^0.24.0'']"

definition getCommonDependencies :: "GeneratorConfig \<Rightarrow> DependencySpec list" where
  "getCommonDependencies config =
     [devDep ''typescript'' ''^5.7.0'', devDep ''@types/node'' ''^22.0.0'']
     @ buildSystemDependencies (buildSystem config)
     @ [devDep ''vitest'' ''^2.1.0'']"

definition BaseGenerator_getDependencies ::
  "(GeneratorConfig \<Rightarrow> DependencySpec list) \<Rightarrow> GeneratorConfig \<Rightarrow> DependencySpec list" where
  "BaseGenerator_getDependencies getFrameworkDependencies config =
     getCommonDependencies config @ getFrameworkDependencies config"

definition BaseGenerator_getExports :: "GeneratorConfig \<Rightarrow> ExportConfig list" where
  "BaseGenerator_getExports config =
     (let mainExport = \<lparr>exp_path = ''.'', exp_types = Some ''./dist/index.d.ts'',
                         exp_import = Some ''./dist/index.js'', exp_require = None,
                         exp_default = None\<rparr>;
          mainExport = (if moduleFormat config = Dual
                        then mainExport\<lparr>exp_require := Some ''./dist/index.cjs''\<rparr>
                        else mainExport);
          mainExport = mainExport\<lparr>exp_default := Some ''./dist/index.js''\<rparr>
      in [mainExport])"

definition tmpl :: "string \<Rightarrow> string \<Rightarrow> GeneratedFile" where
  "tmpl p t = \<lparr>file_path = p, file_template = t, isTemplate = True, condition = None\<rparr>"

fun buildSystemFiles :: "BuildSystem \<Rightarrow> GeneratedFile list" where
  "buildSystemFiles Tsup = [tmpl ''tsup.config.ts'' ''common/tsup.config.ts.hbs'']"
| "buildSystemFiles Vite = [tmpl ''vite.config.ts'' ''common/vite.config.ts.hbs'']"
| "buildSystemFiles Rollup = [tmpl ''rollup.config.ts'' ''common/rollup.config.ts.hbs'']"
| "buildSystemFiles Unbuild = [tmpl ''build.config.ts'' ''common/unbuild.config.ts.hbs'']"
| "buildSystemFiles Esbuild = []"

definition getCommonFiles :: "GeneratorConfig \<Rightarrow> GeneratedFile list" where
  "getCommonFiles config =
     [tmpl ''tsconfig.json'' ''common/tsconfig.json.hbs'',
      tmpl ''README.md'' ''common/README.md.hbs'',
      tmpl ''LICENSE'' ''common/LICENSE.hbs'',
      tmpl ''.gitignore'' ''common/gitignore.hbs'',
      tmpl ''.npmignore'' ''common/npmignore.hbs'',
      tmpl ''CHANGELOG.md'' ''common/CHANGELOG.md.hbs'']
     @ buildSystemFiles (buildSystem config)
     @ [tmpl ''vitest.config.ts'' ''common/vitest.config.ts.hbs'']"

definition BaseGenerator_getFiles ::
  "(GeneratorConfig \<Rightarrow> GeneratedFile list) \<Rightarrow> GeneratorConfig \<Rightarrow> GeneratedFile list" where
  "BaseGenerator_getFiles getFrameworkFiles config =
     getCommonFiles config @ getFrameworkFiles config"

definition getCommonPackageJsonExtras :: "GeneratorConfig \<Rightarrow> (string \<times> jsval) list" where
  "getCommonPackageJsonExtras config =
     [(''sideEffects'', JBool False),
      (''files'', JArr [JStr ''dist'', JStr ''README.md'', JStr ''LICENSE'', JStr ''CHANGELOG.md''])]"

definition BaseGenerator_getPackageJsonExtras ::
  "(GeneratorConfig \<Rightarrow> (string \<times> jsval) list) \<Rightarrow> GeneratorConfig \<Rightarrow> (string \<times> jsval) list" where
  "BaseGenerator_getPackageJsonExtras getFrameworkPackageJsonExtras config =
     spread (getCommonPackageJsonExtras config) (getFrameworkPackageJsonExtras config)"

definition nameIssues :: "GeneratorConfig \<Rightarrow> ValidationIssue list" where
  "nameIssues config =
     (if name config = [] \<or> trim (name config) = []
      then [\<lparr>severity = Error, category = ''config'',
             message = ''Package name is required'', suggestion = None\<rparr>]
      else [])"

definition packageTypeIssues :: "GeneratorMeta \<Rightarrow> GeneratorConfig \<Rightarrow> ValidationIssue list" where
  \<open>packageTypeIssues m config =
     (if packageType config \<notin> set (supportedPackageTypes m)
      then [\<lparr>severity = Error, category = ''config'',
             message = ''Package type "'' @ PackageType_str (packageType config)
                       @ ''" is not supported by '' @ meta_name m,
             suggestion = Some (''Supported types: ''
                       @ join '', '' (map PackageType_str (supportedPackageTypes m)))\<rparr>]
      else [])\<close>

definition runtimeTargetIssues :: "GeneratorMeta \<Rightarrow> GeneratorConfig \<Rightarrow> ValidationIssue list" where
  \<open>runtimeTargetIssues m config =
     (if runtimeTarget config \<notin> set (supportedRuntimeTargets m)
      then [\<lparr>severity = Error, category = ''config'',
             message = ''Runtime target "'' @ RuntimeTarget_str (runtimeTarget config)
                       @ ''" is not supported by '' @ meta_name m,
             suggestion = Some (''Supported targets: ''
                       @ join '', '' (map RuntimeTarget_str (supportedRuntimeTargets m)))\<rparr>]
      else [])\<close>

definition outDirIssues :: "GeneratorConfig \<Rightarrow> ValidationIssue list" where
  "outDirIssues config =
     (if outDir config = [] \<or> trim (outDir config) = []
      then [\<lparr>severity = Error, category = ''config'',
             message = ''Output directory is required'', suggestion = None\<rparr>]
      else [])"

text \<open>
  \<open>BaseGenerator.validate\<close>: the four checks push their issues in this order, then the
  issues of the framework hook; the result is valid when no issue is an error.
\<close>

definition BaseGenerator_validate ::
  "GeneratorMeta \<Rightarrow> (GeneratorConfig \<Rightarrow> ValidationIssue list) \<Rightarrow> GeneratorConfig \<Rightarrow> ValidationResult" where
  "BaseGenerator_validate m validateFrameworkConfig config =
     (let issues = nameIssues config @ packageTypeIssues m config
                   @ runtimeTargetIssues m config @ outDirIssues config
                   @ validateFrameworkConfig config
      in \<lparr>valid = \<not> list_ex (\<lambda>i. severity i = Error) issues, issues = issues\<rparr>)"

definition BaseGenerator_validateFrameworkConfig :: "GeneratorConfig \<Rightarrow> ValidationIssue list" where
  "BaseGenerator_validateFrameworkConfig config = []"

definition BaseGenerator_postGenerate :: "GeneratorConfig \<Rightarrow> GeneratorResult \<Rightarrow> string + GeneratorResult" where
  "BaseGenerator_postGenerate config result = Inr result"

text \<open>
  A subclass of BaseGenerator that overrides nothing but the abstract methods and,
  possibly, the validation hook.
\<close>

definition BaseGenerator ::
  "GeneratorMeta \<Rightarrow> (GeneratorConfig \<Rightarrow> DependencySpec list) \<Rightarrow> (GeneratorConfig \<Rightarrow> GeneratedFile list)
   \<Rightarrow> (GeneratorConfig \<Rightarrow> (string \<times> jsval) list) \<Rightarrow> (GeneratorConfig \<Rightarrow> ValidationIssue list)
   \<Rightarrow> Generator" where
  "BaseGenerator m getFrameworkDependencies getFrameworkFiles getFrameworkPackageJsonExtras
       validateFrameworkConfig =
     \<lparr>meta = m,
      getDependencies = BaseGenerator_getDependencies getFrameworkDependencies,
      getExports = BaseGenerator_getExports,
      getFiles = BaseGenerator_getFiles getFrameworkFiles,
      getPackageJsonExtras = BaseGenerator_getPackageJsonExtras getFrameworkPackageJsonExtras,
      validate = BaseGenerator_validate m validateFrameworkConfig,
      postGenerate = Some BaseGenerator_postGenerate\<rparr>"

section \<open>React generator (generators/react/index.ts)\<close>

definition ReactGenerator_meta :: GeneratorMeta where
  "ReactGenerator_meta =
     \<lparr>meta_id = ''react-library'', meta_name = ''React Library'', meta_framework = ''react'',
      meta_description = ''Generate a React component library with TypeScript, modern build tools, and JSX support'',
      meta_version = ''1.0.0'',
      supportedPackageTypes = [Library, Utility, Plugin],
      supportedRuntimeTargets = [Browser, Universal],
      recommendedBuildSystem = Tsup\<rparr>"

definition ReactGenerator_getFrameworkDependencies :: "GeneratorConfig \<Rightarrow> DependencySpec list" where
  "ReactGenerator_getFrameworkDependencies config =
     [peerDep ''react'' ''^18.0.0 || ^19.0.0'',
      peerDep ''react-dom'' ''^18.0.0 || ^19.0.0'',
      devDep ''@types/react'' ''^18.0.0'',
      devDep ''@types/react-dom'' ''^18.0.0'',
      devDep ''@testing-library/react'' ''^16.1.0'',
      devDep ''@testing-library/jest-dom'' ''^6.6.0'',
      devDep ''jsdom'' ''^25.0.0'',
      devDep ''eslint'' ''^9.17.0'',
      devDep ''@eslint/js'' ''^9.17.0'',
      devDep ''eslint-plugin-react'' ''^7.37.0'',
      devDep ''eslint-plugin-react-hooks'' ''^5.1.0'',
      devDep ''globals'' ''^15.0.0'',
      devDep ''typescript-eslint'' ''^8.18.0'',
      devDep ''@vitejs/plugin-react'' ''^4.3.0'']"

definition ReactGenerator_getFrameworkFiles :: "GeneratorConfig \<Rightarrow> GeneratedFile list" where
  "ReactGenerator_getFrameworkFiles config =
     [tmpl ''src/index.ts'' ''react/src/index.ts.hbs'',
      tmpl ''src/components/Button/Button.tsx'' ''react/src/components/Button/Button.tsx.hbs'',
      tmpl ''src/components/Button/Button.test.tsx'' ''react/src/components/Button/Button.test.tsx.hbs'',
      tmpl ''src/components/Button/index.ts'' ''react/src/components/Button/index.ts.hbs'',
      tmpl ''src/hooks/useToggle.ts'' ''react/src/hooks/useToggle.ts.hbs'',
      tmpl ''src/hooks/useToggle.test.ts'' ''react/src/hooks/useToggle.test.ts.hbs'',
      tmpl ''src/hooks/index.ts'' ''react/src/hooks/index.ts.hbs'',
      tmpl ''eslint.config.js'' ''react/eslint.config.js.hbs'',
      tmpl ''vitest.setup.ts'' ''common/vitest.setup.ts.hbs'']
     @ (if includeExample config = Some True
        then [tmpl ''example/index.html'' ''react/example/index.html.hbs'',
              tmpl ''example/main.tsx'' ''react/example/main.tsx.hbs'',
              tmpl ''example/App.tsx'' ''react/example/App.tsx.hbs'',
              tmpl ''example/vite.config.ts'' ''react/example/vite.config.ts.hbs'',
              tmpl ''example/package.json'' ''react/example/package.json.hbs'',
              tmpl ''example/tsconfig.json'' ''react/example/tsconfig.json.hbs'']
        else [])"

definition ReactGenerator_getFrameworkPackageJsonExtras :: "GeneratorConfig \<Rightarrow> (string \<times> jsval) list" where
  "ReactGenerator_getFrameworkPackageJsonExtras config =
     (let scripts = [(''lint'', JStr ''eslint src''), (''lint:fix'', JStr ''eslint src --fix'')];
          scripts = (if includeExample config = Some True
                     then assoc_set ''example:prod'' (JStr ''npm run build && cd example && npm run dev:prod'')
                            (assoc_set ''example:dev'' (JStr ''cd example && npm run dev'')
                              (assoc_set ''example:install'' (JStr ''cd example && npm install'') scripts))
                     else scripts)
      in [(''peerDependenciesMeta'', JObj [(''react-dom'', JObj [(''optional'', JBool True)])]),
          (''scripts'', JObj scripts)])"

definition ReactGenerator_validateFrameworkConfig :: "GeneratorConfig \<Rightarrow> ValidationIssue list" where
  \<open>ReactGenerator_validateFrameworkConfig config =
     (if runtimeTarget config = NodeTarget
      then [\<lparr>severity = Warning, category = ''config'',
             message = ''React libraries typically target browser, not Node.js'',
             suggestion = Some ''Consider using "browser" or "universal" as the runtime target''\<rparr>]
      else [])\<close>

definition reactGenerator :: Generator where
  "reactGenerator =
     BaseGenerator ReactGenerator_meta ReactGenerator_getFrameworkDependencies
       ReactGenerator_getFrameworkFiles ReactGenerator_getFrameworkPackageJsonExtras
       ReactGenerator_validateFrameworkConfig"

section \<open>Node generator (generators/node/index.ts)\<close>

definition NodeGenerator_meta :: GeneratorMeta where
  "NodeGenerator_meta =
     \<lparr>meta_id = ''node-package'', meta_name = ''Node.js Package'', meta_framework = ''node'',
      meta_description = ''Generate a Node.js package or CLI tool with TypeScript'',
      meta_version = ''1.0.0'',
      supportedPackageTypes = [Utility, Library, Cli, Sdk],
      supportedRuntimeTargets = [NodeTarget, Edge],
      recommendedBuildSystem = Tsup\<rparr>"

definition NodeGenerator_getFrameworkDependencies :: "GeneratorConfig \<Rightarrow> DependencySpec list" where
  "NodeGenerator_getFrameworkDependencies config =
     [devDep ''@types/node'' ''^22.10.0'',
      devDep ''eslint'' ''^9.17.0'',
      devDep ''@eslint/js'' ''^9.17.0'',
      devDep ''typescript-eslint'' ''^8.18.0'',
      devDep ''globals'' ''^15.0.0'']
     @ (if packageType config = Cli
        then [dep ''commander'' ''^12.1.0'', dep ''chalk'' ''^5.3.0'',
              dep ''@inquirer/prompts'' ''^7.2.0'', dep ''ora'' ''^8.1.0'']
        else [])"

definition NodeGenerator_getFrameworkFiles :: "GeneratorConfig \<Rightarrow> GeneratedFile list" where
  "NodeGenerator_getFrameworkFiles config =
     (if packageType config = Cli
      then [tmpl ''src/index.ts'' ''node/src/index-cli.ts.hbs'',
            tmpl ''src/bin/cli.ts'' ''node/src/bin/cli.ts.hbs'',
            tmpl ''src/commands/init.ts'' ''node/src/commands/init.ts.hbs'',
            tmpl ''src/commands/index.ts'' ''node/src/commands/index.ts.hbs'',
            tmpl ''src/utils/logger.ts'' ''node/src/utils/logger.ts.hbs'',
            tmpl ''src/utils/index.ts'' ''node/src/utils/index.ts.hbs'']
      else [tmpl ''src/index.ts'' ''node/src/index.ts.hbs'',
            tmpl ''src/core/client.ts'' ''node/src/core/client.ts.hbs'',
            tmpl ''src/core/client.test.ts'' ''node/src/core/client.test.ts.hbs'',
            tmpl ''src/core/index.ts'' ''node/src/core/index.ts.hbs'',
            tmpl ''src/types.ts'' ''node/src/types.ts.hbs''])
     @ [tmpl ''eslint.config.js'' ''node/eslint.config.js.hbs'']
     @ (if includeExample config = Some True
        then [tmpl ''example/package.json'' ''node/example/package.json.hbs'']
             @ (if packageType config = Cli
                then [tmpl ''example/demo.sh'' ''node/example/demo.sh.hbs'']
                else [tmpl ''example/usage.ts'' ''node/example/usage.ts.hbs''])
        else [])"

text \<open>\<open>NodeGenerator.getExports\<close> calls the base method and pushes the binary entry.\<close>

definition NodeGenerator_getExports :: "GeneratorConfig \<Rightarrow> ExportConfig list" where
  "NodeGenerator_getExports config =
     (let exports = BaseGenerator_getExports config
      in if packageType config = Cli
         then exports @ [\<lparr>exp_path = ''./bin'', exp_types = Some ''./dist/bin/cli.d.ts'',
                          exp_import = Some ''./dist/bin/cli.js'', exp_require = None,
                          exp_default = None\<rparr>]
         else exports)"

text \<open>
  \<open>config.name.replace(/^@[^/]+\//, '')\<close>: a leading scope, an at sign followed by one or
  more characters other than a slash and then a slash, is removed.
\<close>

definition packageShortName :: "string \<Rightarrow> string" where
  "packageShortName n =
     (case n of
        [] \<Rightarrow> n
      | c # rest \<Rightarrow>
          (if c = CHR ''@'' \<and> takeWhile (\<lambda>x. x \<noteq> CHR ''/'') rest \<noteq> []
                \<and> dropWhile (\<lambda>x. x \<noteq> CHR ''/'') rest \<noteq> []
           then tl (dropWhile (\<lambda>x. x \<noteq> CHR ''/'') rest)
           else n))"

definition NodeGenerator_getFrameworkPackageJsonExtras :: "GeneratorConfig \<Rightarrow> (string \<times> jsval) list" where
  "NodeGenerator_getFrameworkPackageJsonExtras config =
     (let scripts = [(''lint'', JStr ''eslint src''), (''lint:fix'', JStr ''eslint src --fix'')];
          scripts = (if includeExample config = Some True \<and> packageType config \<noteq> Cli
                     then assoc_set ''example:run'' (JStr ''cd example && npx tsx usage.ts'') scripts
                     else scripts);
          extras = [(''engines'', JObj [(''node'', JStr ''>=18.0.0'')]), (''scripts'', JObj scripts)]
      in if packageType config = Cli
         then assoc_set ''bin'' (JObj [(packageShortName (name config), JStr ''./dist/bin/cli.js'')]) extras
         else extras)"

definition NodeGenerator_validateFrameworkConfig :: "GeneratorConfig \<Rightarrow> ValidationIssue list" where
  \<open>NodeGenerator_validateFrameworkConfig config =
     (if runtimeTarget config = Browser
      then [\<lparr>severity = Warning, category = ''config'',
             message = ''Node.js packages typically target Node.js, not browser'',
             suggestion = Some ''Consider using "node" or "universal" as the runtime target''\<rparr>]
      else [])\<close>

definition nodeGenerator :: Generator where
  "nodeGenerator =
     (BaseGenerator NodeGenerator_meta NodeGenerator_getFrameworkDependencies
        NodeGenerator_getFrameworkFiles NodeGenerator_getFrameworkPackageJsonExtras
        NodeGenerator_validateFrameworkConfig)\<lparr>getExports := NodeGenerator_getExports\<rparr>"

section \<open>Registry (core/registry.ts)\<close>

text \<open>
  Both maps are JavaScript Maps, which keep the insertion order of their keys. The logger
  calls of \<open>register\<close> are returned with the new registry.
\<close>

datatype LogEntry = LogWarn string | LogDebug string

record GeneratorRegistry =
  generators :: "(string \<times> Generator) list"
  frameworkMap :: "(Framework \<times> Generator list) list"

definition emptyRegistry :: GeneratorRegistry where
  "emptyRegistry = \<lparr>generators = [], frameworkMap = []\<rparr>"

definition getByFramework :: "GeneratorRegistry \<Rightarrow> Framework \<Rightarrow> Generator list" where
  "getByFramework reg framework =
     (case map_of (frameworkMap reg) framework of None \<Rightarrow> [] | Some gs \<Rightarrow> gs)"

definition register :: "Generator \<Rightarrow> GeneratorRegistry \<Rightarrow> GeneratorRegistry \<times> LogEntry list" where
  \<open>register generator reg =
     (let gid = meta_id (meta generator);
          framework = meta_framework (meta generator);
          warned = (if assoc_has (generators reg) gid
                    then [LogWarn (''Generator "'' @ gid @ ''" is already registered. Overwriting.'')]
                    else []);
          existing = getByFramework reg framework
      in (\<lparr>generators = assoc_set gid generator (generators reg),
           frameworkMap = assoc_set framework (existing @ [generator]) (frameworkMap reg)\<rparr>,
          warned @ [LogDebug (''Registered generator: '' @ gid @ '' ('' @ framework @ '')'')]))\<close>

definition unregister :: "string \<Rightarrow> GeneratorRegistry \<Rightarrow> bool \<times> GeneratorRegistry" where
  "unregister gid reg =
     (case map_of (generators reg) gid of
        None \<Rightarrow> (False, reg)
      | Some generator \<Rightarrow>
          (let framework = meta_framework (meta generator);
               existing = getByFramework reg framework
           in (True,
               \<lparr>generators = assoc_delete gid (generators reg),
                frameworkMap = assoc_set framework
                                 (filter (\<lambda>g. meta_id (meta g) \<noteq> gid) existing)
                                 (frameworkMap reg)\<rparr>)))"

definition get :: "GeneratorRegistry \<Rightarrow> string \<Rightarrow> Generator option" where
  "get reg gid = map_of (generators reg) gid"

definition getPrimary :: "GeneratorRegistry \<Rightarrow> Framework \<Rightarrow> Generator option" where
  "getPrimary reg framework =
     (case getByFramework reg framework of [] \<Rightarrow> None | g # _ \<Rightarrow> Some g)"

definition getAll :: "GeneratorRegistry \<Rightarrow> Generator list" where
  "getAll reg = map snd (generators reg)"

definition getAllMeta :: "GeneratorRegistry \<Rightarrow> GeneratorMeta list" where
  "getAllMeta reg = map meta (getAll reg)"

definition getSupportedFrameworks :: "GeneratorRegistry \<Rightarrow> Framework list" where
  "getSupportedFrameworks reg = map fst (frameworkMap reg)"

definition has :: "GeneratorRegistry \<Rightarrow> string \<Rightarrow> bool" where
  "has reg gid = assoc_has (generators reg) gid"

definition hasFramework :: "GeneratorRegistry \<Rightarrow> Framework \<Rightarrow> bool" where
  "hasFramework reg framework =
     (case map_of (frameworkMap reg) framework of None \<Rightarrow> False | Some gs \<Rightarrow> length gs > 0)"

definition clear :: "GeneratorRegistry \<Rightarrow> GeneratorRegistry" where
  "clear reg = \<lparr>generators = [], frameworkMap = []\<rparr>"

text \<open>A finite sequence of register and unregister calls, run from left to right.\<close>

datatype RegistryOp = Register Generator | Unregister string

fun applyOp :: "GeneratorRegistry \<Rightarrow> RegistryOp \<Rightarrow> GeneratorRegistry" where
  "applyOp reg (Register g) = fst (register g reg)"
| "applyOp reg (Unregister gid) = snd (unregister gid reg)"

definition runOps :: "RegistryOp list \<Rightarrow> GeneratorRegistry \<Rightarrow> GeneratorRegistry" where
  "runOps ops reg = foldl applyOp reg ops"

section \<open>Orchestrator (core/generator.ts)\<close>

text \<open>
  What the orchestrator takes from outside the repository is a parameter: Node's path
  functions, the template engine's \<open>render\<close> (\<open>None\<close> when it throws), Prettier's \<open>format\<close>
  for a parser and a content (\<open>Inl\<close> the message when it throws), the clock, and the file
  system. The effect of a run on the file system is the list of operations it has completed,
  in order; \<open>fs_fails\<close> says, from the operations completed so far, whether the next one
  throws and with which message. The spinner and the logger only print and are left out.
\<close>

datatype FsOp = EnsureDir string | WriteFile string string | WriteJson string jsval

record Env =
  path_join :: "string \<Rightarrow> string \<Rightarrow> string"
  path_dirname :: "string \<Rightarrow> string"
  path_extname :: "string \<Rightarrow> string"
  path_basename :: "string \<Rightarrow> string"
  templateEngine_render :: "string \<Rightarrow> jsval \<Rightarrow> string option"
  prettier_format :: "string \<Rightarrow> string \<Rightarrow> string + string"
  fs_fails :: "FsOp list \<Rightarrow> FsOp \<Rightarrow> string option"
  now_year :: int
  now_date :: string

definition perform :: "Env \<Rightarrow> FsOp \<Rightarrow> FsOp list \<Rightarrow> string + FsOp list" where
  "perform env op ops =
     (case fs_fails env ops op of Some msg \<Rightarrow> Inl msg | None \<Rightarrow> Inr (ops @ [op]))"

text \<open>The parser chosen by the switch of \<open>formatContent\<close>; \<open>None\<close> is the default branch.\<close>

definition parserFor :: "string \<Rightarrow> string option" where
  "parserFor ext =
     (if ext = ''.ts'' \<or> ext = ''.tsx'' then Some ''typescript''
      else if ext = ''.js'' \<or> ext = ''.jsx'' \<or> ext = ''.mjs'' \<or> ext = ''.cjs'' then Some ''babel''
      else if ext = ''.json'' then Some ''json''
      else if ext = ''.md'' then Some ''markdown''
      else if ext = ''.html'' then Some ''html''
      else if ext = ''.css'' \<or> ext = ''.scss'' then Some ''css''
      else if ext = ''.yaml'' \<or> ext = ''.yml'' then Some ''yaml''
      else None)"

definition formatContent :: "Env \<Rightarrow> string \<Rightarrow> string \<Rightarrow> string" where
  "formatContent env content filepath =
     (case parserFor (path_extname env filepath) of
        None \<Rightarrow> content
      | Some parser \<Rightarrow>
          (case prettier_format env parser content of
             Inl err \<Rightarrow> content
           | Inr formatted \<Rightarrow> formatted))"

text \<open>\<open>groupDependencies\<close>: the reduce assigns \<open>acc[dep.name] = dep.version\<close>.\<close>

definition groupDependencies :: "DependencySpec list \<Rightarrow> DependencyType \<Rightarrow> (string \<times> string) list" where
  "groupDependencies deps type =
     foldl (\<lambda>acc d. prop_assign (dep_name d) (dep_version d) acc) []
       (filter (\<lambda>d. dep_type d = type) deps)"

definition depsObject :: "(string \<times> string) list \<Rightarrow> jsval" where
  "depsObject m = JObj (map (\<lambda>p. (fst p, JStr (snd p))) m)"

definition optField :: "string \<Rightarrow> string option \<Rightarrow> (string \<times> jsval) list" where
  "optField k v = (case v of None \<Rightarrow> [] | Some s \<Rightarrow> [(k, JStr s)])"

definition exportObject :: "ExportConfig \<Rightarrow> jsval" where
  "exportObject e =
     JObj ([(''path'', JStr (exp_path e))] @ optField ''types'' (exp_types e)
           @ optField ''import'' (exp_import e) @ optField ''require'' (exp_require e)
           @ optField ''default'' (exp_default e))"

definition configObject :: "GeneratorConfig \<Rightarrow> (string \<times> jsval) list" where
  "configObject config =
     spread
       ([(''name'', JStr (name config)),
         (''description'', JStr (description config)),
         (''packageType'', JStr (PackageType_str (packageType config))),
         (''runtimeTarget'', JStr (RuntimeTarget_str (runtimeTarget config))),
         (''moduleFormat'', JStr (ModuleFormat_str (moduleFormat config))),
         (''buildSystem'', JStr (BuildSystem_str (buildSystem config))),
         (''packageManager'', JStr (PackageManager_str (packageManager config))),
         (''license'', JStr (license config)),
         (''author'', JStr (author config))]
        @ optField ''repository'' (repository config)
        @ [(''outDir'', JStr (outDir config))]
        @ (case includeExample config of None \<Rightarrow> [] | Some b \<Rightarrow> [(''includeExample'', JBool b)]))
       (otherOptions config)"

definition buildTemplateContext :: "Env \<Rightarrow> GeneratorConfig \<Rightarrow> Generator \<Rightarrow> jsval" where
  "buildTemplateContext env config generator =
     (let deps = getDependencies generator config;
          exports = getExports generator config;
          extras = getPackageJsonExtras generator config
      in JObj
          (spread
            (spread
              (spread (configObject config)
                [(''year'', JNum (now_year env)),
                 (''date'', JStr (now_date env)),
                 (''cliVersion'', JStr ''1.0.0-alpha.1''),
                 (''dependencies'', depsObject (groupDependencies deps Dependency)),
                 (''devDependencies'', depsObject (groupDependencies deps DevDependency)),
                 (''peerDependencies'', depsObject (groupDependencies deps PeerDependency)),
                 (''optionalDependencies'', depsObject (groupDependencies deps OptionalDependency)),
                 (''exports'', JArr (map exportObject exports))])
              extras)
            [(''framework'', JStr (meta_framework (meta generator))),
             (''generatorId'', JStr (meta_id (meta generator)))]))"

fun getBuildScript :: "BuildSystem \<Rightarrow> string" where
  "getBuildScript Tsup = ''tsup''"
| "getBuildScript Vite = ''vite build''"
| "getBuildScript Rollup = ''rollup -c''"
| "getBuildScript Unbuild = ''unbuild''"
| "getBuildScript Esbuild = ''esbuild src/index.ts --bundle --outdir=dist --format=esm''"

fun getDevScript :: "BuildSystem \<Rightarrow> string" where
  "getDevScript Tsup = ''tsup --watch''"
| "getDevScript Vite = ''vite build --watch''"
| "getDevScript Rollup = ''rollup -c -w''"
| "getDevScript Unbuild = ''unbuild --watch''"
| "getDevScript Esbuild = ''esbuild src/index.ts --bundle --outdir=dist --format=esm --watch''"

text \<open>
  One entry of the manifest's exports field. \<open>exp.default || exp.import\<close> is the default
  path when it is truthy and the import path otherwise.
\<close>

definition exportEntry :: "GeneratorConfig \<Rightarrow> ExportConfig \<Rightarrow> jsval" where
  "exportEntry config exp =
     (let dflt = (if truthy (exp_default exp) then opt_js (exp_default exp)
                  else opt_js (exp_import exp))
      in if moduleFormat config = Dual \<and> truthy (exp_require exp)
         then JObj [(''types'', opt_js (exp_types exp)),
                    (''import'', opt_js (exp_import exp)),
                    (''require'', opt_js (exp_require exp)),
                    (''default'', dflt)]
         else JObj [(''types'', opt_js (exp_types exp)),
                    (''import'', opt_js (exp_import exp)),
                    (''default'', dflt)])"

definition exportsField :: "GeneratorConfig \<Rightarrow> ExportConfig list \<Rightarrow> (string \<times> jsval) list" where
  "exportsField config exports =
     foldl (\<lambda>field exp. prop_assign (exp_path exp) (exportEntry config exp) field) [] exports"

text \<open>
  \<open>(extras.scripts as Record<string, string>) || {}\<close>, as the spread
  \<open>{...baseScripts, ...extraScripts}\<close> reads it: the properties of the scripts value when
  it is truthy, none when it is missing or falsy.
\<close>

definition extraScripts :: "(string \<times> jsval) list \<Rightarrow> (string \<times> jsval) list" where
  "extraScripts extras =
     (case map_of extras ''scripts'' of
        None \<Rightarrow> []
      | Some v \<Rightarrow> if js_truthy v then spread_source v else [])"

definition baseScripts :: "GeneratorConfig \<Rightarrow> (string \<times> jsval) list" where
  "baseScripts config =
     [(''build'', JStr (getBuildScript (buildSystem config))),
      (''dev'', JStr (getDevScript (buildSystem config))),
      (''test'', JStr ''vitest''),
      (''test:coverage'', JStr ''vitest --coverage''),
      (''typecheck'', JStr ''tsc --noEmit''),
      (''prepublishOnly'', JStr ''npm run build'')]"

definition sectionKey :: "DependencyType \<Rightarrow> string" where
  "sectionKey t = (case t of Dependency \<Rightarrow> ''dependencies'' | DevDependency \<Rightarrow> ''devDependencies''
                    | PeerDependency \<Rightarrow> ''peerDependencies''
                    | OptionalDependency \<Rightarrow> ''optionalDependencies'')"

text \<open>\<open>if (Object.keys(section).length > 0) packageJson[key] = section\<close>.\<close>

definition addSection ::
  "DependencySpec list \<Rightarrow> DependencyType \<Rightarrow> (string \<times> jsval) list \<Rightarrow> (string \<times> jsval) list" where
  "addSection deps t packageJson =
     (let section = groupDependencies deps t
      in if length section > 0 then assoc_set (sectionKey t) (depsObject section) packageJson
         else packageJson)"

text \<open>The object that \<open>generatePackageJson\<close> writes.\<close>

definition packageJson :: "Generator \<Rightarrow> GeneratorConfig \<Rightarrow> (string \<times> jsval) list" where
  "packageJson generator config =
     (let deps = getDependencies generator config;
          exports = getExports generator config;
          extras = getPackageJsonExtras generator config;
          mergedScripts = spread (baseScripts config) (extraScripts extras);
          restExtras = assoc_delete ''scripts'' extras;
          pkg = spread
                  [(''name'', JStr (name config)),
                   (''version'', JStr ''0.0.1''),
                   (''description'', JStr (description config)),
                   (''type'', JStr ''module''),
                   (''main'', JStr ''./dist/index.js''),
                   (''module'', JStr ''./dist/index.js''),
                   (''types'', JStr ''./dist/index.d.ts''),
                   (''exports'', JObj (exportsField config exports)),
                   (''files'', JArr [JStr ''dist'', JStr ''README.md'', JStr ''LICENSE'', JStr ''CHANGELOG.md'']),
                   (''scripts'', JObj mergedScripts),
                   (''keywords'', JArr []),
                   (''author'', JStr (author config)),
                   (''license'', JStr (license config)),
                   (''sideEffects'', JBool False)]
                  restExtras;
          pkg = (if truthy (repository config)
                 then assoc_set ''repository''
                        (JObj [(''type'', JStr ''git''), (''url'', opt_js (repository config))]) pkg
                 else pkg)
      in addSection deps OptionalDependency
           (addSection deps PeerDependency
             (addSection deps DevDependency
               (addSection deps Dependency pkg))))"

definition generatePackageJson ::
  "Env \<Rightarrow> Generator \<Rightarrow> GeneratorConfig \<Rightarrow> FsOp list \<Rightarrow> string + FsOp list" where
  "generatePackageJson env generator config ops =
     perform env
       (WriteJson (path_join env (outDir config) ''package.json'') (JObj (packageJson generator config)))
       ops"

definition generateNextSteps :: "Env \<Rightarrow> GeneratorConfig \<Rightarrow> string list" where
  "generateNextSteps env config =
     [''cd '' @ path_basename env (outDir config),
      (case packageManager config of
         Pnpm \<Rightarrow> ''pnpm install''
       | Yarn \<Rightarrow> ''yarn''
       | BunPm \<Rightarrow> ''bun install''
       | Npm \<Rightarrow> ''npm install''),
      ''npm run build'',
      ''npm run test'']"

text \<open>\<open>String.prototype.replace\<close> with a string pattern: the first occurrence is replaced.\<close>

fun replaceFirst :: "string \<Rightarrow> string \<Rightarrow> string \<Rightarrow> string" where
  "replaceFirst pat rep [] = (if pat = [] then rep else [])"
| "replaceFirst pat rep (c # cs) =
     (if take (length pat) (c # cs) = pat then rep @ drop (length pat) (c # cs)
      else c # replaceFirst pat rep cs)"

definition alternatePaths :: "Framework \<Rightarrow> string \<Rightarrow> string list" where
  "alternatePaths framework template =
     [framework @ ''/'' @ replaceFirst ''common/'' [] (replaceFirst (framework @ ''/'') [] template),
      replaceFirst (framework @ ''/'') [] template]"

fun firstRendered :: "Env \<Rightarrow> string list \<Rightarrow> jsval \<Rightarrow> string option" where
  "firstRendered env [] context = None"
| "firstRendered env (altPath # rest) context =
     (case templateEngine_render env altPath context of
        Some content \<Rightarrow> Some content
      | None \<Rightarrow> firstRendered env rest context)"

text \<open>The content of one file: rendered, with the retry on the alternate paths, or literal.\<close>

definition fileContent :: "Env \<Rightarrow> Framework \<Rightarrow> GeneratedFile \<Rightarrow> jsval \<Rightarrow> string + string" where
  "fileContent env framework file context =
     (if isTemplate file
      then (case templateEngine_render env (file_template file) context of
              Some content \<Rightarrow> Inr content
            | None \<Rightarrow>
                (case firstRendered env (alternatePaths framework (file_template file)) context of
                   Some content \<Rightarrow> Inr content
                 | None \<Rightarrow> Inl (''Template not found: '' @ file_template file)))
      else Inr (file_template file))"

definition skipped :: "GeneratedFile \<Rightarrow> GeneratorConfig \<Rightarrow> bool" where
  "skipped file config = (case condition file of None \<Rightarrow> False | Some c \<Rightarrow> \<not> c config)"

text \<open>
  The loop over the files. Its state is the operations completed and the paths pushed to
  \<open>files\<close>; the first component of the result is the message of the exception that ended
  the loop, if one did.
\<close>

fun generateFiles ::
  "Env \<Rightarrow> Framework \<Rightarrow> GeneratorConfig \<Rightarrow> jsval \<Rightarrow> GeneratedFile list \<Rightarrow> FsOp list \<times> string list
   \<Rightarrow> string option \<times> FsOp list \<times> string list" where
  "generateFiles env framework config context [] (ops, written) = (None, ops, written)"
| "generateFiles env framework config context (file # rest) (ops, written) =
     (if skipped file config then generateFiles env framework config context rest (ops, written)
      else
        (let filePath = path_join env (outDir config) (file_path file)
         in case perform env (EnsureDir (path_dirname env filePath)) ops of
              Inl msg \<Rightarrow> (Some msg, ops, written)
            | Inr ops1 \<Rightarrow>
                (case fileContent env framework file context of
                   Inl msg \<Rightarrow> (Some msg, ops1, written)
                 | Inr content \<Rightarrow>
                     (case perform env (WriteFile filePath (formatContent env content filePath)) ops1 of
                        Inl msg \<Rightarrow> (Some msg, ops1, written)
                      | Inr ops2 \<Rightarrow>
                          generateFiles env framework config context rest
                            (ops2, written @ [file_path file])))))"

definition failed :: "string list \<Rightarrow> string list \<Rightarrow> string \<Rightarrow> GeneratorResult" where
  "failed fs ws msg = \<lparr>success = False, files = fs, warnings = ws, error = Some msg, nextSteps = []\<rparr>"

definition messagesOf :: "ValidationSeverity \<Rightarrow> ValidationIssue list \<Rightarrow> string list" where
  "messagesOf sev iss = map message (filter (\<lambda>i. severity i = sev) iss)"

text \<open>
  \<open>generatePackage\<close>, with the registry it reads. It returns the result and the file-system
  operations the run completed.
\<close>

definition generatePackage ::
  "Env \<Rightarrow> GeneratorRegistry \<Rightarrow> Framework \<Rightarrow> GeneratorConfig \<Rightarrow> GeneratorResult \<times> FsOp list" where
  "generatePackage env reg framework config =
     (case getPrimary reg framework of
        None \<Rightarrow> (failed [] [] (''No generator found for framework: '' @ framework), [])
      | Some generator \<Rightarrow>
          (let validation = validate generator config
           in if \<not> valid validation
              then (failed [] [] (join [CHR 0x0A] (messagesOf Error (issues validation))), [])
              else
                (let warns = messagesOf Warning (issues validation)
                 in case perform env (EnsureDir (outDir config)) [] of
                      Inl msg \<Rightarrow> (failed [] warns msg, [])
                    | Inr ops0 \<Rightarrow>
                        (let context = buildTemplateContext env config generator;
                             filesToGenerate = getFiles generator config
                         in case generateFiles env framework config context filesToGenerate (ops0, []) of
                              (Some msg, ops1, written) \<Rightarrow> (failed written warns msg, ops1)
                            | (None, ops1, written) \<Rightarrow>
                                (case generatePackageJson env generator config ops1 of
                                   Inl msg \<Rightarrow> (failed written warns msg, ops1)
                                 | Inr ops2 \<Rightarrow>
                                     (let result = \<lparr>success = True, files = written, warnings = warns,
                                                    error = None, nextSteps = generateNextSteps env config\<rparr>
                                      in case postGenerate generator of
                                           None \<Rightarrow> (result, ops2)
                                         | Some hook \<Rightarrow>
                                             (case hook config result of
                                                Inl msg \<Rightarrow> (failed written warns msg, ops2)
                                              | Inr result' \<Rightarrow> (result', ops2))))))))"

section \<open>Sample inputs\<close>

definition sampleConfig :: GeneratorConfig where
  "sampleConfig =
     \<lparr>name = ''my-lib'', description = ''A library'', packageType = Library,
      runtimeTarget = Browser, moduleFormat = Esm, buildSystem = Tsup, packageManager = Npm,
      license = ''MIT'', author = ''Ada'', repository = None, outDir = ''out'',
      includeExample = None, otherOptions = []\<rparr>"

text \<open>
  An environment with POSIX-like paths, a template engine that renders every reference to
  a one-line comment, a Prettier that rejects every content, and a file system on which every
  operation succeeds.
\<close>

definition sampleEnv :: Env where
  "sampleEnv =
     \<lparr>path_join = (\<lambda>a b. a @ ''/'' @ b),
      path_dirname = (\<lambda>p. rev (drop 1 (dropWhile (\<lambda>c. c \<noteq> CHR ''/'') (rev p)))),
      path_extname = (\<lambda>p. if CHR ''.'' \<in> set p
                           then CHR ''.'' # rev (takeWhile (\<lambda>c. c \<noteq> CHR ''.'') (rev p)) else []),
      path_basename = (\<lambda>p. rev (takeWhile (\<lambda>c. c \<noteq> CHR ''/'') (rev p))),
      templateEngine_render = (\<lambda>template context. Some (''// '' @ template)),
      prettier_format = (\<lambda>parser content. Inl ''SyntaxError''),
      fs_fails = (\<lambda>ops op. None),
      now_year = 2025,
      now_date = ''2025-01-01''\<rparr>"

text \<open>A second generator with the identity and the framework tag of the React generator.\<close>

definition reactGeneratorV2 :: Generator where
  "reactGeneratorV2 = reactGenerator\<lparr>meta := ReactGenerator_meta\<lparr>meta_version := ''2.0.0''\<rparr>\<rparr>"

text \<open>
  A generator that declares no optional dependency and puts an \<open>optionalDependencies\<close>
  field into its manifest extras.
\<close>

definition extrasGenerator :: Generator where
  "extrasGenerator =
     BaseGenerator (ReactGenerator_meta\<lparr>meta_id := ''extras-library''\<rparr>)
       (\<lambda>config. []) (\<lambda>config. [])
       (\<lambda>config. [(''optionalDependencies'', JObj [(''fsevents'', JStr ''^2.3.0'')])])
       (\<lambda>config. [])"

section \<open>Association lists\<close>

lemma map_of_assoc_set: "map_of (assoc_set k v ps) = (map_of ps)(k \<mapsto> v)"
  by (induction ps) auto

lemma map_of_spread: "map_of (spread a b) = map_of a ++ map_of (rev b)"
  unfolding spread_def
proof (induction b arbitrary: a)
  case Nil
  show ?case by simp
next
  case (Cons p b)
  show ?case
    by (cases p) (simp add: Cons.IH map_of_assoc_set map_add_def fun_eq_iff split: option.splits)
qed

lemma map_of_rev_None: "(map_of (rev ps) k = None) = (map_of ps k = None)"
  by (simp add: map_of_eq_None_iff)

lemma map_of_spread_absent: "map_of b k = None \<Longrightarrow> map_of (spread a b) k = map_of a k"
  using map_of_rev_None [of b k] by (simp add: map_of_spread map_add_def)

lemma map_of_assoc_delete: "map_of (assoc_delete k ps) k' = (if k' = k then None else map_of ps k')"
  unfolding assoc_delete_def by (induction ps) auto

section \<open>Facts about the generators\<close>

lemma validate_reactGenerator:
  "validate reactGenerator = BaseGenerator_validate ReactGenerator_meta ReactGenerator_validateFrameworkConfig"
  by (simp add: reactGenerator_def BaseGenerator_def)

lemma meta_reactGenerator: "meta reactGenerator = ReactGenerator_meta"
  by (simp add: reactGenerator_def BaseGenerator_def)

lemma getExports_reactGenerator: "getExports reactGenerator = BaseGenerator_getExports"
  by (simp add: reactGenerator_def BaseGenerator_def)

lemma react_extras_keys:
  "map fst (getPackageJsonExtras reactGenerator config)
     = [''sideEffects'', ''files'', ''peerDependenciesMeta'', ''scripts'']"
  by (simp add: reactGenerator_def BaseGenerator_def BaseGenerator_getPackageJsonExtras_def
      getCommonPackageJsonExtras_def ReactGenerator_getFrameworkPackageJsonExtras_def
      spread_def Let_def)

lemma getExports_nodeGenerator: "getExports nodeGenerator = NodeGenerator_getExports"
  by (simp add: nodeGenerator_def)

lemma getDependencies_nodeGenerator:
  "getDependencies nodeGenerator config
     = getCommonDependencies config @ NodeGenerator_getFrameworkDependencies config"
  by (simp add: nodeGenerator_def BaseGenerator_def BaseGenerator_getDependencies_def)

lemma getPackageJsonExtras_nodeGenerator:
  "getPackageJsonExtras nodeGenerator config
     = spread (getCommonPackageJsonExtras config) (NodeGenerator_getFrameworkPackageJsonExtras config)"
  by (simp add: nodeGenerator_def BaseGenerator_def BaseGenerator_getPackageJsonExtras_def)

lemma node_extras_keys:
  "map fst (getPackageJsonExtras nodeGenerator config)
     = (if packageType config = Cli then [''sideEffects'', ''files'', ''engines'', ''scripts'', ''bin'']
        else [''sideEffects'', ''files'', ''engines'', ''scripts''])"
  by (simp add: getPackageJsonExtras_nodeGenerator getCommonPackageJsonExtras_def
      NodeGenerator_getFrameworkPackageJsonExtras_def spread_def Let_def)

lemma node_restExtras:
  "assoc_delete ''scripts'' (getPackageJsonExtras nodeGenerator config)
     = [(''sideEffects'', JBool False),
        (''files'', JArr [JStr ''dist'', JStr ''README.md'', JStr ''LICENSE'', JStr ''CHANGELOG.md'']),
        (''engines'', JObj [(''node'', JStr ''>=18.0.0'')])]
       @ (if packageType config = Cli
          then [(''bin'', JObj [(packageShortName (name config), JStr ''./dist/bin/cli.js'')])]
          else [])"
  by (simp add: getPackageJsonExtras_nodeGenerator getCommonPackageJsonExtras_def
      NodeGenerator_getFrameworkPackageJsonExtras_def spread_def assoc_delete_def Let_def)

lemma reactGenerator_neq_V2: "reactGenerator \<noteq> reactGeneratorV2"
proof
  assume "reactGenerator = reactGeneratorV2"
  then have "meta_version (meta reactGenerator) = meta_version (meta reactGeneratorV2)" by simp
  then show False by (simp add: reactGeneratorV2_def meta_reactGenerator ReactGenerator_meta_def)
qed

lemma meta_reactGeneratorV2: "meta reactGeneratorV2 = ReactGenerator_meta\<lparr>meta_version := ''2.0.0''\<rparr>"
  by (simp add: reactGeneratorV2_def)

section \<open>The manifest\<close>

lemma map_of_prop_assign:
  "map_of (prop_assign k v ps) n
     = (if k = n \<and> n \<noteq> ''__proto__'' then Some v else map_of ps n)"
  by (simp add: prop_assign_def map_of_assoc_set)

lemma foldl_prop_assign_lookup:
  "map_of (foldl (\<lambda>acc d. prop_assign (dep_name d) (dep_version d) acc) acc xs) n
     = (if n = ''__proto__'' \<or> filter (\<lambda>d. dep_name d = n) xs = [] then map_of acc n
        else Some (dep_version (last (filter (\<lambda>d. dep_name d = n) xs))))"
proof (cases "n = ''__proto__''")
  case True
  then show ?thesis
    by (induction xs rule: rev_induct) (simp_all add: map_of_prop_assign)
next
  case False
  then show ?thesis
    by (induction xs rule: rev_induct) (simp_all add: map_of_prop_assign)
qed

lemma groupDependencies_lookup:
  "map_of (groupDependencies deps t) n
     = (if n = ''__proto__'' \<or> filter (\<lambda>d. dep_type d = t \<and> dep_name d = n) deps = [] then None
        else Some (dep_version (last (filter (\<lambda>d. dep_type d = t \<and> dep_name d = n) deps))))"
  by (simp add: groupDependencies_def foldl_prop_assign_lookup)

lemma groupDependencies_empty:
  "(groupDependencies deps t = [])
     = (\<forall>d \<in> set deps. dep_type d = t \<longrightarrow> dep_name d = ''__proto__'')"
proof -
  have "(groupDependencies deps t = []) = (\<forall>n. map_of (groupDependencies deps t) n = None)"
    by (cases "groupDependencies deps t") (auto simp: fun_eq_iff)
  also have "\<dots> = (\<forall>d \<in> set deps. dep_type d = t \<longrightarrow> dep_name d = ''__proto__'')"
    by (auto simp: groupDependencies_lookup filter_empty_conv)
  finally show ?thesis .
qed

text \<open>
  A dependency named \<open>__proto__\<close> leaves no entry: the assignment in the reduce creates no
  own property for that name.
\<close>

lemma groupDependencies_proto:
  "groupDependencies [dep ''__proto__'' ''1.0.0''] Dependency = []"
  by (simp add: groupDependencies_def dep_def prop_assign_def)

lemma map_of_depsObject_fields:
  "map_of (map (\<lambda>p. (fst p, JStr (snd p))) m) n = map_option JStr (map_of m n)"
  by (induction m) auto

lemma map_of_addSection:
  "map_of (addSection deps t pkg) k
     = (if k = sectionKey t \<and> groupDependencies deps t \<noteq> []
        then Some (depsObject (groupDependencies deps t)) else map_of pkg k)"
  by (simp add: addSection_def Let_def map_of_assoc_set)

lemma packageJson_section:
  "map_of (packageJson g config) (sectionKey t)
     = (if groupDependencies (getDependencies g config) t \<noteq> []
        then Some (depsObject (groupDependencies (getDependencies g config) t))
        else map_of (rev (assoc_delete ''scripts'' (getPackageJsonExtras g config))) (sectionKey t))"
  by (cases t)
     (simp_all add: packageJson_def Let_def map_of_addSection sectionKey_def map_of_assoc_set
       map_of_spread map_add_def split: option.splits)

lemma packageJson_other_key:
  "k \<notin> {''dependencies'', ''devDependencies'', ''peerDependencies'', ''optionalDependencies'', ''repository''}
   \<Longrightarrow> map_of (packageJson g config) k
     = map_of (spread
                  [(''name'', JStr (name config)),
                   (''version'', JStr ''0.0.1''),
                   (''description'', JStr (description config)),
                   (''type'', JStr ''module''),
                   (''main'', JStr ''./dist/index.js''),
                   (''module'', JStr ''./dist/index.js''),
                   (''types'', JStr ''./dist/index.d.ts''),
                   (''exports'', JObj (exportsField config (getExports g config))),
                   (''files'', JArr [JStr ''dist'', JStr ''README.md'', JStr ''LICENSE'', JStr ''CHANGELOG.md'']),
                   (''scripts'', JObj (spread (baseScripts config) (extraScripts (getPackageJsonExtras g config)))),
                   (''keywords'', JArr []),
                   (''author'', JStr (author config)),
                   (''license'', JStr (license config)),
                   (''sideEffects'', JBool False)]
                  (assoc_delete ''scripts'' (getPackageJsonExtras g config))) k"
  by (simp add: packageJson_def Let_def map_of_addSection sectionKey_def map_of_assoc_set)

lemma packageJson_exports:
  "map_of (getPackageJsonExtras g config) ''exports'' = None \<Longrightarrow>
   map_of (packageJson g config) ''exports'' = Some (JObj (exportsField config (getExports g config)))"
  by (simp add: packageJson_other_key map_of_spread_absent map_of_assoc_delete)

section \<open>Exports\<close>

text \<open>
  C1. The root entry that \<open>BaseGenerator.getExports\<close> returns and the entry that
  \<open>generatePackageJson\<close> builds from it under the key \<open>.\<close> of the exports field both carry
  the require path \<open>./dist/index.cjs\<close> when the module format is dual, and neither carries a
  require path when the format is esm or cjs. The field so built is the \<open>exports\<close> field of
  the manifest of every generator that inherits \<open>getExports\<close> and whose extras do not
  themselves define \<open>exports\<close>.
\<close>

theorem base_root_export_require:
  "(\<exists>e fields.
     find (\<lambda>e. exp_path e = ''.'') (BaseGenerator_getExports config) = Some e
     \<and> map_of (exportsField config (BaseGenerator_getExports config)) ''.'' = Some (JObj fields)
     \<and> (moduleFormat config = Dual \<longrightarrow>
          exp_require e = Some ''./dist/index.cjs''
          \<and> map_of fields ''require'' = Some (JStr ''./dist/index.cjs''))
     \<and> (moduleFormat config \<noteq> Dual \<longrightarrow>
          exp_require e = None \<and> map_of fields ''require'' = None))
   \<and> (\<forall>g. getExports g = BaseGenerator_getExports
            \<and> map_of (getPackageJsonExtras g config) ''exports'' = None \<longrightarrow>
          map_of (packageJson g config) ''exports''
            = Some (JObj (exportsField config (BaseGenerator_getExports config))))"
  by (simp add: BaseGenerator_getExports_def exportsField_def prop_assign_def exportEntry_def Let_def
      packageJson_exports)

theorem base_root_export_require_witness:
  "moduleFormat (sampleConfig\<lparr>moduleFormat := Dual\<rparr>) = Dual
   \<and> getExports reactGenerator = BaseGenerator_getExports
   \<and> map_of (getPackageJsonExtras reactGenerator (sampleConfig\<lparr>moduleFormat := Dual\<rparr>)) ''exports'' = None
   \<and> map_of (packageJson reactGenerator (sampleConfig\<lparr>moduleFormat := Dual\<rparr>)) ''exports''
       = Some (JObj [(''.'', JObj [(''types'', JStr ''./dist/index.d.ts''),
                                   (''import'', JStr ''./dist/index.js''),
                                   (''require'', JStr ''./dist/index.cjs''),
                                   (''default'', JStr ''./dist/index.js'')])])
   \<and> map_of (packageJson reactGenerator sampleConfig) ''exports''
       = Some (JObj [(''.'', JObj [(''types'', JStr ''./dist/index.d.ts''),
                                   (''import'', JStr ''./dist/index.js''),
                                   (''default'', JStr ''./dist/index.js'')])])"
proof -
  have none: "map_of (getPackageJsonExtras reactGenerator c) ''exports'' = None" for c
    by (simp add: map_of_eq_None_iff react_extras_keys flip: set_map)
  show ?thesis
    using base_root_export_require [of "sampleConfig\<lparr>moduleFormat := Dual\<rparr>"]
      base_root_export_require [of sampleConfig] none getExports_reactGenerator
    by (simp add: sampleConfig_def BaseGenerator_getExports_def exportsField_def prop_assign_def exportEntry_def Let_def)
qed

section \<open>Validation\<close>

lemma react_runtimeTargetIssues_node:
  "runtimeTarget config = NodeTarget \<Longrightarrow>
   list_ex (\<lambda>i. severity i = Error) (runtimeTargetIssues ReactGenerator_meta config)"
  by (simp add: runtimeTargetIssues_def ReactGenerator_meta_def)

text \<open>
  C2, as stated, fails: \<open>node\<close> is not among the runtime targets the React generator
  declares, so the membership check of \<open>BaseGenerator.validate\<close> adds an error and the result
  is not valid, here for a configuration whose other fields all pass.
\<close>

theorem react_node_target_valid_counterexample:
  "\<not> valid (validate reactGenerator (sampleConfig\<lparr>runtimeTarget := NodeTarget\<rparr>))"
  by (simp add: validate_reactGenerator BaseGenerator_validate_def Let_def
      react_runtimeTargetIssues_node)

text \<open>
  C2, amended. For the React generator and every configuration whose runtime target is
  \<open>node\<close>, validation yields the warning that recommends \<open>browser\<close> or \<open>universal\<close>, and it
  also yields the error of the base membership check, so the result is not valid.
\<close>

theorem react_node_target_warning_and_error:
  \<open>runtimeTarget config = NodeTarget \<Longrightarrow>
   \<not> valid (validate reactGenerator config)
   \<and> (\<exists>i \<in> set (issues (validate reactGenerator config)).
         severity i = Error
         \<and> message i = ''Runtime target "node" is not supported by React Library'')
   \<and> (\<exists>i \<in> set (issues (validate reactGenerator config)).
         severity i = Warning
         \<and> message i = ''React libraries typically target browser, not Node.js''
         \<and> suggestion i = Some ''Consider using "browser" or "universal" as the runtime target'')\<close>
  by (simp add: validate_reactGenerator BaseGenerator_validate_def Let_def
      runtimeTargetIssues_def ReactGenerator_meta_def
      ReactGenerator_validateFrameworkConfig_def)

theorem react_node_target_warning_and_error_witness:
  \<open>runtimeTarget (sampleConfig\<lparr>runtimeTarget := NodeTarget\<rparr>) = NodeTarget
   \<and> \<not> valid (validate reactGenerator (sampleConfig\<lparr>runtimeTarget := NodeTarget\<rparr>))
   \<and> map severity (issues (validate reactGenerator (sampleConfig\<lparr>runtimeTarget := NodeTarget\<rparr>)))
       = [Error, Warning]\<close>
  using react_node_target_warning_and_error [of "sampleConfig\<lparr>runtimeTarget := NodeTarget\<rparr>"]
  by (simp add: validate_reactGenerator BaseGenerator_validate_def Let_def
      runtimeTargetIssues_def packageTypeIssues_def nameIssues_def outDirIssues_def
      ReactGenerator_meta_def trim_def is_space_def
      ReactGenerator_validateFrameworkConfig_def sampleConfig_def)

section \<open>Registry\<close>

text \<open>\<open>register\<close> always appends to the bucket of the framework and removes nothing from it.\<close>

lemma getByFramework_register:
  "getByFramework (fst (register g reg)) (meta_framework (meta g))
     = getByFramework reg (meta_framework (meta g)) @ [g]"
  by (simp add: register_def getByFramework_def Let_def map_of_assoc_set)

text \<open>
  C3. Registering a second generator under an identity that is taken logs a warning and
  replaces the entry of the identity map, but the framework bucket is only appended to: the
  replaced generator stays in it, and stays the primary generator of the framework.
\<close>

theorem register_same_id_keeps_replaced_generator:
  "(case register reactGenerator emptyRegistry of (reg1, logs1) \<Rightarrow>
      case register reactGeneratorV2 reg1 of (reg2, logs2) \<Rightarrow>
        (\<exists>msg. logs2 = [LogWarn msg, LogDebug ''Registered generator: react-library (react)''])
        \<and> get reg2 ''react-library'' = Some reactGeneratorV2
        \<and> getByFramework reg2 ''react'' = [reactGenerator, reactGeneratorV2]
        \<and> getPrimary reg2 ''react'' = Some reactGenerator
        \<and> reactGenerator \<noteq> reactGeneratorV2)"
  by (simp add: register_def emptyRegistry_def get_def getByFramework_def getPrimary_def
      Let_def assoc_has_def meta_reactGenerator meta_reactGeneratorV2 ReactGenerator_meta_def
      reactGenerator_neq_V2)

text \<open>
  C4. After the only generator of a framework is unregistered, the framework's key stays in
  the framework map with an empty bucket, and \<open>getSupportedFrameworks\<close>, which lists the keys,
  still reports it, while \<open>hasFramework\<close> does not.
\<close>

theorem supported_frameworks_keep_emptied_tag:
  "getSupportedFrameworks (runOps [Register reactGenerator, Unregister ''react-library''] emptyRegistry)
     = [''react'']
   \<and> getAll (runOps [Register reactGenerator, Unregister ''react-library''] emptyRegistry) = []
   \<and> getByFramework (runOps [Register reactGenerator, Unregister ''react-library''] emptyRegistry) ''react'' = []
   \<and> \<not> hasFramework (runOps [Register reactGenerator, Unregister ''react-library''] emptyRegistry) ''react''"
  by (simp add: runOps_def register_def unregister_def emptyRegistry_def getSupportedFrameworks_def
      getAll_def getByFramework_def hasFramework_def assoc_delete_def
      Let_def meta_reactGenerator ReactGenerator_meta_def)

lemma getPrimary_registered_react:
  "getPrimary (fst (register reactGenerator emptyRegistry)) ''react'' = Some reactGenerator"
  by (simp add: register_def emptyRegistry_def getPrimary_def getByFramework_def Let_def
      meta_reactGenerator ReactGenerator_meta_def)

section \<open>Failures before any file-system operation\<close>

lemma getPrimary_None: "getByFramework reg framework = [] \<Longrightarrow> getPrimary reg framework = None"
  by (simp add: getPrimary_def)

text \<open>
  C5. When no generator is registered for the framework, \<open>generatePackage\<close> returns a failed
  result with no files, no warnings and a non-empty error message, and completes no
  file-system operation.
\<close>

theorem unknown_framework_fails_without_io:
  "getByFramework reg framework = [] \<Longrightarrow>
   generatePackage env reg framework config
     = (\<lparr>success = False, files = [], warnings = [],
         error = Some (''No generator found for framework: '' @ framework), nextSteps = []\<rparr>, [])
   \<and> ''No generator found for framework: '' @ framework \<noteq> []"
  by (simp add: generatePackage_def getPrimary_None failed_def)

theorem unknown_framework_fails_without_io_witness:
  "getByFramework emptyRegistry ''cobol'' = []
   \<and> generatePackage sampleEnv emptyRegistry ''cobol'' sampleConfig
     = (\<lparr>success = False, files = [], warnings = [],
         error = Some ''No generator found for framework: cobol'', nextSteps = []\<rparr>, [])"
  using unknown_framework_fails_without_io [of emptyRegistry "''cobol''" sampleEnv sampleConfig]
  by (simp add: getByFramework_def emptyRegistry_def)

lemma join_nonempty: "x \<noteq> [] \<Longrightarrow> join sep (x # xs) \<noteq> []"
  by (cases xs) auto

lemma nameIssues_blank:
  "trim (name config) = [] \<Longrightarrow>
   nameIssues config = [\<lparr>severity = Error, category = ''config'',
                         message = ''Package name is required'', suggestion = None\<rparr>]"
  by (simp add: nameIssues_def)

text \<open>
  C6. When the name of the configuration is empty or only white space, the validate method
  of the base generator reports an error-severity issue and an invalid result, and
  \<open>generatePackage\<close>, resolving to a generator with that method, returns a failed result
  with a non-empty message before it has completed any file-system operation.
\<close>

theorem blank_name_fails_before_io:
  assumes blank: "trim (name config) = []"
    and primary: "getPrimary reg framework = Some g"
    and base: "validate g = BaseGenerator_validate m hook"
  shows "(\<exists>i \<in> set (issues (validate g config)).
            severity i = Error \<and> message i = ''Package name is required'')
     \<and> \<not> valid (validate g config)
     \<and> (\<exists>msg. msg \<noteq> [] \<and> generatePackage env reg framework config
            = (\<lparr>success = False, files = [], warnings = [], error = Some msg, nextSteps = []\<rparr>, []))"
proof -
  have iss: "issues (validate g config)
      = \<lparr>severity = Error, category = ''config'', message = ''Package name is required'',
         suggestion = None\<rparr>
        # (packageTypeIssues m config @ runtimeTargetIssues m config @ outDirIssues config @ hook config)"
    by (simp add: base BaseGenerator_validate_def Let_def nameIssues_blank [OF blank])
  have inv: "\<not> valid (validate g config)"
    by (simp add: base BaseGenerator_validate_def Let_def nameIssues_blank [OF blank])
  have msg: "join [CHR 0x0A] (messagesOf Error (issues (validate g config))) \<noteq> []"
    by (simp add: iss messagesOf_def join_nonempty)
  have run: "generatePackage env reg framework config
      = (failed [] [] (join [CHR 0x0A] (messagesOf Error (issues (validate g config)))), [])"
    using inv by (simp add: generatePackage_def primary Let_def)
  show ?thesis using iss inv msg run by (simp add: failed_def)
qed

theorem blank_name_fails_before_io_witness:
  "trim (name (sampleConfig\<lparr>name := ''  ''\<rparr>)) = []
   \<and> getPrimary (fst (register reactGenerator emptyRegistry)) ''react'' = Some reactGenerator
   \<and> \<not> valid (validate reactGenerator (sampleConfig\<lparr>name := ''  ''\<rparr>))
   \<and> (\<exists>msg. msg \<noteq> [] \<and> generatePackage sampleEnv (fst (register reactGenerator emptyRegistry)) ''react''
         (sampleConfig\<lparr>name := ''  ''\<rparr>)
       = (\<lparr>success = False, files = [], warnings = [], error = Some msg,
           nextSteps = []\<rparr>, []))"
proof -
  have blank: "trim (name (sampleConfig\<lparr>name := ''  ''\<rparr>)) = []"
    by (simp add: trim_def is_space_def)
  show ?thesis
    using blank getPrimary_registered_react
      blank_name_fails_before_io [OF blank getPrimary_registered_react validate_reactGenerator,
        of sampleEnv]
    by simp
qed

text \<open>
  C10. When validation by the base method reports an error-severity issue, with or without
  warnings beside it, the failed result of \<open>generatePackage\<close> has an empty warnings list
  (and no files, and nothing was done on the file system).
\<close>

theorem invalid_config_result_has_no_warnings:
  assumes primary: "getPrimary reg framework = Some g"
    and base: "validate g = BaseGenerator_validate m hook"
    and err: "\<exists>i \<in> set (issues (validate g config)). severity i = Error"
  shows "\<not> success (fst (generatePackage env reg framework config))
     \<and> warnings (fst (generatePackage env reg framework config)) = []
     \<and> files (fst (generatePackage env reg framework config)) = []
     \<and> snd (generatePackage env reg framework config) = []"
proof -
  have "\<not> valid (validate g config)"
    using err by (simp add: base BaseGenerator_validate_def Let_def list_ex_iff)
  then show ?thesis
    by (simp add: generatePackage_def primary Let_def failed_def)
qed

theorem invalid_config_result_has_no_warnings_witness:
  "getPrimary (fst (register reactGenerator emptyRegistry)) ''react'' = Some reactGenerator
   \<and> map severity (issues (validate reactGenerator (sampleConfig\<lparr>runtimeTarget := NodeTarget\<rparr>)))
       = [Error, Warning]
   \<and> \<not> success (fst (generatePackage sampleEnv (fst (register reactGenerator emptyRegistry)) ''react''
         (sampleConfig\<lparr>runtimeTarget := NodeTarget\<rparr>)))
   \<and> warnings (fst (generatePackage sampleEnv (fst (register reactGenerator emptyRegistry)) ''react''
         (sampleConfig\<lparr>runtimeTarget := NodeTarget\<rparr>))) = []
   \<and> snd (generatePackage sampleEnv (fst (register reactGenerator emptyRegistry)) ''react''
         (sampleConfig\<lparr>runtimeTarget := NodeTarget\<rparr>)) = []"
proof -
  have sev: "map severity (issues (validate reactGenerator (sampleConfig\<lparr>runtimeTarget := NodeTarget\<rparr>)))
       = [Error, Warning]"
    by (simp add: validate_reactGenerator BaseGenerator_validate_def Let_def
      runtimeTargetIssues_def packageTypeIssues_def nameIssues_def outDirIssues_def
      ReactGenerator_meta_def trim_def is_space_def
      ReactGenerator_validateFrameworkConfig_def sampleConfig_def)
  have err: "\<exists>i \<in> set (issues (validate reactGenerator (sampleConfig\<lparr>runtimeTarget := NodeTarget\<rparr>))).
      severity i = Error"
    by (simp add: validate_reactGenerator BaseGenerator_validate_def Let_def
      runtimeTargetIssues_def ReactGenerator_meta_def)
  from invalid_config_result_has_no_warnings
    [OF getPrimary_registered_react validate_reactGenerator err, of sampleEnv]
  show ?thesis using getPrimary_registered_react sev by simp
qed

text \<open>When validation succeeds the warnings of the result are those of the validation.\<close>

lemma valid_config_result_keeps_warnings:
  assumes "getPrimary reg framework = Some g"
    and "valid (validate g config)"
    and "postGenerate g = None \<or> postGenerate g = Some BaseGenerator_postGenerate"
  shows "warnings (fst (generatePackage env reg framework config))
     = messagesOf Warning (issues (validate g config))"
  using assms
  by (auto simp: generatePackage_def Let_def failed_def BaseGenerator_postGenerate_def
      split: sum.splits option.splits prod.splits)

section \<open>Dependencies in the manifest\<close>

text \<open>
  C7, as stated, fails in its only-if half: the extras of a generator are spread into the
  manifest, so a generator that declares no optional dependency and returns an
  \<open>optionalDependencies\<close> field among its extras gets that section in its manifest.
\<close>

theorem extras_section_without_dependency_counterexample:
  "map dep_type (getDependencies extrasGenerator sampleConfig)
     = [DevDependency, DevDependency, DevDependency, DevDependency]
   \<and> map_of (packageJson extrasGenerator sampleConfig) ''optionalDependencies''
     = Some (JObj [(''fsevents'', JStr ''^2.3.0'')])"
  by (simp add: extrasGenerator_def BaseGenerator_def BaseGenerator_getDependencies_def
      getCommonDependencies_def devDep_def sampleConfig_def
      packageJson_section [where t = OptionalDependency, unfolded sectionKey_def, simplified]
      groupDependencies_def BaseGenerator_getPackageJsonExtras_def getCommonPackageJsonExtras_def
      spread_def assoc_delete_def)

text \<open>
  C7, amended. Every dependency a generator declares under a name other than \<open>__proto__\<close>
  appears in the manifest section of its kind under its package name, with the version of
  the last declared specification of that name and kind, so the section of a kind is present
  whenever such a dependency of that kind is declared; and for a kind whose section name is
  not a field of the generator's own extras, the section is absent when no dependency of
  that kind is declared.
\<close>

theorem manifest_dependency_sections:
  "(\<forall>d \<in> set (getDependencies g config). dep_name d \<noteq> ''__proto__'' \<longrightarrow>
      (\<exists>section.
        map_of (packageJson g config) (sectionKey (dep_type d)) = Some (JObj section)
        \<and> map_of section (dep_name d)
            = Some (JStr (dep_version (last (filter
                (\<lambda>d'. dep_type d' = dep_type d \<and> dep_name d' = dep_name d)
                (getDependencies g config)))))))
   \<and> (\<forall>t. (\<exists>d \<in> set (getDependencies g config). dep_type d = t \<and> dep_name d \<noteq> ''__proto__'') \<longrightarrow>
          map_of (packageJson g config) (sectionKey t) \<noteq> None)
   \<and> (\<forall>t. map_of (getPackageJsonExtras g config) (sectionKey t) = None
            \<and> (\<forall>d \<in> set (getDependencies g config). dep_type d \<noteq> t) \<longrightarrow>
          map_of (packageJson g config) (sectionKey t) = None)"
proof (intro conjI ballI allI impI)
  fix d
  assume d: "d \<in> set (getDependencies g config)" and named: "dep_name d \<noteq> ''__proto__''"
  let ?deps = "getDependencies g config"
  let ?same = "filter (\<lambda>d'. dep_type d' = dep_type d \<and> dep_name d' = dep_name d) ?deps"
  have ne: "groupDependencies ?deps (dep_type d) \<noteq> []"
    using d named by (auto simp: groupDependencies_empty)
  have same: "?same \<noteq> []"
    using d by (auto simp: filter_empty_conv)
  have sec: "map_of (packageJson g config) (sectionKey (dep_type d))
      = Some (JObj (map (\<lambda>p. (fst p, JStr (snd p))) (groupDependencies ?deps (dep_type d))))"
    using ne by (simp add: packageJson_section depsObject_def)
  have look: "map_of (map (\<lambda>p. (fst p, JStr (snd p))) (groupDependencies ?deps (dep_type d))) (dep_name d)
      = Some (JStr (dep_version (last ?same)))"
    using same named by (simp add: map_of_depsObject_fields groupDependencies_lookup)
  show "\<exists>section.
        map_of (packageJson g config) (sectionKey (dep_type d)) = Some (JObj section)
        \<and> map_of section (dep_name d) = Some (JStr (dep_version (last ?same)))"
    using sec look by blast
next
  fix t
  assume "\<exists>d \<in> set (getDependencies g config). dep_type d = t \<and> dep_name d \<noteq> ''__proto__''"
  then have "groupDependencies (getDependencies g config) t \<noteq> []"
    by (auto simp: groupDependencies_empty)
  then show "map_of (packageJson g config) (sectionKey t) \<noteq> None"
    by (simp add: packageJson_section)
next
  fix t
  assume h: "map_of (getPackageJsonExtras g config) (sectionKey t) = None
      \<and> (\<forall>d \<in> set (getDependencies g config). dep_type d \<noteq> t)"
  have "sectionKey t \<noteq> ''scripts''"
    by (cases t) (simp_all add: sectionKey_def)
  then have "map_of (rev (assoc_delete ''scripts'' (getPackageJsonExtras g config))) (sectionKey t) = None"
    using h by (simp add: map_of_rev_None map_of_assoc_delete)
  moreover have "groupDependencies (getDependencies g config) t = []"
    using h by (simp add: groupDependencies_empty)
  ultimately show "map_of (packageJson g config) (sectionKey t) = None"
    by (simp add: packageJson_section)
qed

theorem manifest_dependency_sections_witness:
  "devDep ''@types/node'' ''^22.0.0'' \<in> set (getDependencies nodeGenerator sampleConfig)
   \<and> devDep ''@types/node'' ''^22.10.0'' \<in> set (getDependencies nodeGenerator sampleConfig)
   \<and> dep_name (devDep ''@types/node'' ''^22.0.0'') \<noteq> ''__proto__''
   \<and> (\<exists>section.
        map_of (packageJson nodeGenerator sampleConfig) ''devDependencies'' = Some (JObj section)
        \<and> map_of section ''@types/node'' = Some (JStr ''^22.10.0''))
   \<and> map_of (getPackageJsonExtras nodeGenerator sampleConfig) ''optionalDependencies'' = None
   \<and> OptionalDependency \<notin> set (map dep_type (getDependencies nodeGenerator sampleConfig))
   \<and> map_of (packageJson nodeGenerator sampleConfig) ''optionalDependencies'' = None"
proof -
  let ?d = "devDep ''@types/node'' ''^22.0.0''"
  have mem: "?d \<in> set (getDependencies nodeGenerator sampleConfig)"
    by (simp add: getDependencies_nodeGenerator getCommonDependencies_def)
  have mem2: "devDep ''@types/node'' ''^22.10.0'' \<in> set (getDependencies nodeGenerator sampleConfig)"
    by (simp add: getDependencies_nodeGenerator NodeGenerator_getFrameworkDependencies_def)
  have named: "dep_name ?d \<noteq> ''__proto__''"
    by (simp add: devDep_def)
  have last_same: "last (filter (\<lambda>d'. dep_type d' = dep_type ?d \<and> dep_name d' = dep_name ?d)
        (getDependencies nodeGenerator sampleConfig)) = devDep ''@types/node'' ''^22.10.0''"
    by (simp add: getDependencies_nodeGenerator getCommonDependencies_def
        NodeGenerator_getFrameworkDependencies_def devDep_def dep_def sampleConfig_def)
  have none: "map_of (getPackageJsonExtras nodeGenerator sampleConfig) (sectionKey OptionalDependency) = None"
    by (simp add: map_of_eq_None_iff node_extras_keys sectionKey_def sampleConfig_def flip: set_map)
  have noopt: "\<forall>d \<in> set (getDependencies nodeGenerator sampleConfig). dep_type d \<noteq> OptionalDependency"
    by (simp add: getDependencies_nodeGenerator getCommonDependencies_def
        NodeGenerator_getFrameworkDependencies_def devDep_def dep_def sampleConfig_def)
  from manifest_dependency_sections [of nodeGenerator sampleConfig]
  have a: "\<exists>section.
        map_of (packageJson nodeGenerator sampleConfig) (sectionKey (dep_type ?d)) = Some (JObj section)
        \<and> map_of section (dep_name ?d)
            = Some (JStr (dep_version (last (filter
                (\<lambda>d'. dep_type d' = dep_type ?d \<and> dep_name d' = dep_name ?d)
                (getDependencies nodeGenerator sampleConfig)))))"
    and b: "map_of (packageJson nodeGenerator sampleConfig) (sectionKey OptionalDependency) = None"
    using mem named none noopt by blast+
  from a have a': "\<exists>section.
        map_of (packageJson nodeGenerator sampleConfig) ''devDependencies'' = Some (JObj section)
        \<and> map_of section ''@types/node'' = Some (JStr ''^22.10.0'')"
    unfolding last_same by (simp add: devDep_def sectionKey_def)
  from b have b': "map_of (packageJson nodeGenerator sampleConfig) ''optionalDependencies'' = None"
    by (simp add: sectionKey_def)
  have kinds: "OptionalDependency \<notin> set (map dep_type (getDependencies nodeGenerator sampleConfig))"
    using noopt by auto
  show ?thesis using mem mem2 named a' b' none kinds by (simp add: sectionKey_def)
qed

section \<open>The binary of a CLI package\<close>

text \<open>
  C8. For the Node generator and a configuration of package type cli (of any module format,
  esm included), the manifest has a \<open>bin\<close> field and \<open>getExports\<close> returns, after the root
  entry, an entry for the subpath \<open>./bin\<close>, which the exports field of the manifest carries;
  for any other package type, library included, the manifest has no \<open>bin\<close> field.
\<close>

theorem node_cli_bin_and_export:
  "(packageType config = Cli \<longrightarrow>
      map_of (packageJson nodeGenerator config) ''bin''
        = Some (JObj [(packageShortName (name config), JStr ''./dist/bin/cli.js'')])
      \<and> map exp_path (getExports nodeGenerator config) = [''.'', ''./bin'']
      \<and> map_of (exportsField config (getExports nodeGenerator config)) ''./bin''
        = Some (JObj [(''types'', JStr ''./dist/bin/cli.d.ts''),
                      (''import'', JStr ''./dist/bin/cli.js''),
                      (''default'', JStr ''./dist/bin/cli.js'')]))
   \<and> (packageType config \<noteq> Cli \<longrightarrow>
      map_of (packageJson nodeGenerator config) ''bin'' = None
      \<and> map exp_path (getExports nodeGenerator config) = [''.''])
   \<and> map_of (packageJson nodeGenerator config) ''exports''
        = Some (JObj (exportsField config (getExports nodeGenerator config)))"
proof -
  have bin: "map_of (packageJson nodeGenerator config) ''bin''
      = (if packageType config = Cli
         then Some (JObj [(packageShortName (name config), JStr ''./dist/bin/cli.js'')]) else None)"
    by (simp add: packageJson_other_key node_restExtras map_of_spread)
  have exps: "map_of (packageJson nodeGenerator config) ''exports''
      = Some (JObj (exportsField config (getExports nodeGenerator config)))"
    by (simp add: packageJson_other_key node_restExtras map_of_spread)
  have paths: "map exp_path (getExports nodeGenerator config)
      = (if packageType config = Cli then [''.'', ''./bin''] else [''.''])"
    by (simp add: getExports_nodeGenerator NodeGenerator_getExports_def
        BaseGenerator_getExports_def Let_def)
  have entry: "packageType config = Cli \<Longrightarrow>
      map_of (exportsField config (getExports nodeGenerator config)) ''./bin''
        = Some (JObj [(''types'', JStr ''./dist/bin/cli.d.ts''),
                      (''import'', JStr ''./dist/bin/cli.js''),
                      (''default'', JStr ''./dist/bin/cli.js'')])"
    by (simp add: getExports_nodeGenerator NodeGenerator_getExports_def
        BaseGenerator_getExports_def Let_def exportsField_def prop_assign_def exportEntry_def)
  show ?thesis using bin exps paths entry by simp
qed

theorem node_cli_bin_and_export_witness:
  "packageType (sampleConfig\<lparr>name := ''@acme/tool'', packageType := Cli\<rparr>) = Cli
   \<and> moduleFormat (sampleConfig\<lparr>name := ''@acme/tool'', packageType := Cli\<rparr>) = Esm
   \<and> map_of (packageJson nodeGenerator (sampleConfig\<lparr>name := ''@acme/tool'', packageType := Cli\<rparr>)) ''bin''
       = Some (JObj [(''tool'', JStr ''./dist/bin/cli.js'')])
   \<and> map exp_path (getExports nodeGenerator (sampleConfig\<lparr>name := ''@acme/tool'', packageType := Cli\<rparr>))
       = [''.'', ''./bin'']
   \<and> packageType sampleConfig = Library
   \<and> map_of (packageJson nodeGenerator sampleConfig) ''bin'' = None"
  using node_cli_bin_and_export [of "sampleConfig\<lparr>name := ''@acme/tool'', packageType := Cli\<rparr>"]
    node_cli_bin_and_export [of sampleConfig]
  by (simp add: sampleConfig_def packageShortName_def)

section \<open>Formatting\<close>




end
